theory Spec2Isabelle
  imports Main "HOL-Library.AList"
begin

section \<open>JavaScript values\<close>

text \<open>
  Everything the tracker stores goes through \<^verbatim>\<open>JSON.stringify\<close> and \<^verbatim>\<open>JSON.parse\<close>, so the
  values of the model are JSON values. Numbers are the integers (identifiers and timestamps
  come from \<^verbatim>\<open>Date.now()\<close>); the floating-point part of JavaScript's numbers is not modelled.
  An object is the list of its own properties in insertion order; a property is read through
  \<open>get_prop\<close>. \<^verbatim>\<open>undefined\<close> is \<open>None\<close> of \<open>jsval\<close>: a JSON value never contains it, and a
  property that is assigned \<^verbatim>\<open>undefined\<close> is dropped by \<^verbatim>\<open>JSON.stringify\<close>, so that it reads
  back as \<^verbatim>\<open>undefined\<close> again.
\<close>

datatype json =
    JNull
  | JBool bool
  | JNum int
  | JStr string
  | JArr "json list"
  | JObj "(string \<times> json) list"

type_synonym jsval = "json option"
type_synonym obj = "(string \<times> json) list"

definition get_prop :: "obj \<Rightarrow> string \<Rightarrow> jsval" where
  "get_prop ob k = map_of ob k"

text \<open>\<^verbatim>\<open>ob.k = v\<close> (and the \<^verbatim>\<open>k: v\<close> of an object literal after a spread).\<close>

fun set_prop :: "string \<Rightarrow> jsval \<Rightarrow> obj \<Rightarrow> obj" where
  "set_prop k None ob = AList.delete k ob"
| "set_prop k (Some v) ob = AList.update k v ob"

text \<open>\<^verbatim>\<open>{...target, ...src}\<close>: the properties of \<open>src\<close> are copied in order.\<close>

definition spread :: "obj \<Rightarrow> obj \<Rightarrow> obj" where
  "spread target src = fold (\<lambda>(k, v). AList.update k v) src target"

text \<open>
  \<^verbatim>\<open>a === b\<close> where at least one side was freshly parsed: primitives compare by value,
  arrays and objects by reference, so they are equal to nothing else.
  \<^verbatim>\<open>Array.prototype.includes\<close> (SameValueZero) agrees with it on these values.
\<close>

fun strict_eq :: "jsval \<Rightarrow> jsval \<Rightarrow> bool" where
  "strict_eq (Some (JArr _)) _ = False"
| "strict_eq (Some (JObj _)) _ = False"
| "strict_eq _ (Some (JArr _)) = False"
| "strict_eq _ (Some (JObj _)) = False"
| "strict_eq a b = (a = b)"

text \<open>ToBoolean.\<close>

fun truthy :: "jsval \<Rightarrow> bool" where
  "truthy None = False"
| "truthy (Some JNull) = False"
| "truthy (Some (JBool b)) = b"
| "truthy (Some (JNum n)) = (n \<noteq> 0)"
| "truthy (Some (JStr s)) = (s \<noteq> [])"
| "truthy (Some (JArr _)) = True"
| "truthy (Some (JObj _)) = True"

text \<open>\<^verbatim>\<open>Number.prototype.toString()\<close> on an integer.\<close>

fun digits :: "nat \<Rightarrow> string" where
  "digits n = (if n < 10 then [''0123456789'' ! n]
               else digits (n div 10) @ [''0123456789'' ! (n mod 10)])"

declare digits.simps [simp del]

definition Number_toString :: "int \<Rightarrow> string" where
  "Number_toString i = (if i < 0 then CHR ''-'' # digits (nat (- i)) else digits (nat i))"

text \<open>\<^verbatim>\<open>xs.findIndex(p)\<close>; \<open>None\<close> is the source's \<^verbatim>\<open>-1\<close>.\<close>

fun findIndex :: "('a \<Rightarrow> bool) \<Rightarrow> 'a list \<Rightarrow> nat option" where
  "findIndex p [] = None"
| "findIndex p (x # xs) =
     (if p x then Some 0 else (case findIndex p xs of None \<Rightarrow> None | Some i \<Rightarrow> Some (Suc i)))"

section \<open>The synchronous store (localStorage)\<close>

text \<open>
  The two entries of \<^verbatim>\<open>localStorage\<close>, each absent (\<open>None\<close>) or holding the JSON text
  of an array of records. Storing and reading back a JSON value is the identity, so the model
  keeps the parsed array.
\<close>

record localStorage =
  activities_item :: "obj list option"
  actions_item :: "obj list option"

definition saveActivities :: "obj list \<Rightarrow> localStorage \<Rightarrow> localStorage" where
  "saveActivities activities st = st\<lparr>activities_item := Some activities\<rparr>"

definition getActivities :: "localStorage \<Rightarrow> obj list" where
  "getActivities st = (case activities_item st of None \<Rightarrow> [] | Some xs \<Rightarrow> xs)"



definition updateActivity ::
  "jsval \<Rightarrow> obj \<Rightarrow> localStorage \<Rightarrow> obj option \<times> localStorage" where
  "updateActivity ident updatedActivity st =
     (let activities = getActivities st in
      case findIndex (\<lambda>activity. strict_eq (get_prop activity ''id'') ident) activities of
        Some index \<Rightarrow>
          (let originalActivity = activities ! index;
               mergedActivity =
                 set_prop ''timestamp'' (get_prop originalActivity ''timestamp'')
                   (set_prop ''id'' (get_prop originalActivity ''id'')
                      (spread originalActivity updatedActivity))
           in (Some mergedActivity, saveActivities (activities[index := mergedActivity]) st))
      | None \<Rightarrow> (None, st))"

definition getActivitiesByDate :: "jsval \<Rightarrow> localStorage \<Rightarrow> obj list" where
  "getActivitiesByDate dateStr st =
     filter (\<lambda>activity. strict_eq (get_prop activity ''date'') dateStr) (getActivities st)"

definition getActivitiesByActionId :: "jsval \<Rightarrow> localStorage \<Rightarrow> obj list" where
  "getActivitiesByActionId actionId st =
     filter (\<lambda>activity. strict_eq (get_prop activity ''actionId'') actionId) (getActivities st)"

text \<open>\<^verbatim>\<open>localStorage.removeItem(ACTIVITIES_STORAGE_KEY)\<close>: the activities entry only.\<close>

definition clearAllData :: "localStorage \<Rightarrow> localStorage" where
  "clearAllData st = st\<lparr>activities_item := None\<rparr>"

definition saveActions :: "obj list \<Rightarrow> localStorage \<Rightarrow> localStorage" where
  "saveActions actions st = st\<lparr>actions_item := Some actions\<rparr>"

definition mkAction :: "string \<Rightarrow> string \<Rightarrow> string \<Rightarrow> string \<Rightarrow> string list \<Rightarrow> obj" where
  "mkAction i n t c fs =
     [(''id'', JStr i), (''name'', JStr n), (''type'', JStr t), (''category'', JStr c),
      (''fields'', JArr (map JStr fs))]"

definition defaultActions :: "obj list" where
  "defaultActions =
     [mkAction ''exercise'' ''Exercise'' ''good'' ''Physical'' [''exerciseType'', ''duration'', ''notes''],
      mkAction ''diet-healthy'' ''Healthy Food'' ''good'' ''Nutrition'' [''notes''],
      mkAction ''diet-unhealthy'' ''Unhealthy Food'' ''bad'' ''Nutrition'' [''notes''],
      mkAction ''work'' ''Work Time'' ''neutral'' ''Work'' [''startTime'', ''endTime''] ]"

text \<open>\<open>getActions\<close> writes the defaults when the entry is absent, so it returns the store too.\<close>

definition getActions :: "localStorage \<Rightarrow> obj list \<times> localStorage" where
  "getActions st =
     (case actions_item st of
        Some xs \<Rightarrow> (xs, st)
      | None \<Rightarrow> (defaultActions, saveActions defaultActions st))"


definition updateAction ::
  "jsval \<Rightarrow> obj \<Rightarrow> localStorage \<Rightarrow> obj option \<times> localStorage" where
  "updateAction ident updatedAction st =
     (let (actions, st1) = getActions st in
      case findIndex (\<lambda>action. strict_eq (get_prop action ''id'') ident) actions of
        Some index \<Rightarrow>
          (let merged = spread (actions ! index) updatedAction
           in (Some merged, saveActions (actions[index := merged]) st1))
      | None \<Rightarrow> (None, st1))"








section \<open>The asynchronous store (remote document with a local cache)\<close>

text \<open>
  The remote document of a user holds the two collections as fields; a field that was never
  written is \<open>None\<close>. \<open>docs\<close> is the remote collection \<^verbatim>\<open>users\<close>, indexed by user id, and the
  two cache entries are the \<^verbatim>\<open>localStorage\<close> mirror. A remote call that fails rejects the
  operation before anything is written; only calls that succeed are modelled. Every
  operation awaits its calls in sequence, so the model is the sequential composition.
\<close>

record fsdoc =
  doc_activities :: "obj list option"
  doc_actions :: "obj list option"

record cloud =
  currentUser :: "string option"
  docs :: "string \<Rightarrow> fsdoc option"
  cache_activities :: "obj list option"
  cache_actions :: "obj list option"

datatype error = TypeError

text \<open>\<^verbatim>\<open>setDoc(docRef, data, { merge: true })\<close>: the fields of \<open>data\<close> replace those of the document.\<close>

definition setDoc_merge :: "fsdoc option \<Rightarrow> fsdoc \<Rightarrow> fsdoc" where
  "setDoc_merge old data =
     (case old of
        None \<Rightarrow> data
      | Some d \<Rightarrow>
          \<lparr>doc_activities = (case doc_activities data of None \<Rightarrow> doc_activities d | Some xs \<Rightarrow> Some xs),
           doc_actions = (case doc_actions data of None \<Rightarrow> doc_actions d | Some xs \<Rightarrow> Some xs)\<rparr>)"

definition persist :: "fsdoc \<Rightarrow> cloud \<Rightarrow> cloud" where
  "persist data st =
     (let st1 = (case currentUser st of
                   None \<Rightarrow> st
                 | Some uid \<Rightarrow> st\<lparr>docs := (docs st)(uid \<mapsto> setDoc_merge (docs st uid) data)\<rparr>);
          st2 = (case doc_activities data of
                   None \<Rightarrow> st1
                 | Some xs \<Rightarrow> st1\<lparr>cache_activities := Some xs\<rparr>)
      in (case doc_actions data of
            None \<Rightarrow> st2
          | Some xs \<Rightarrow> st2\<lparr>cache_actions := Some xs\<rparr>))"

definition getActivities_async :: "cloud \<Rightarrow> obj list" where
  "getActivities_async st =
     (case currentUser st of
        None \<Rightarrow> (case cache_activities st of None \<Rightarrow> [] | Some xs \<Rightarrow> xs)
      | Some uid \<Rightarrow>
          (case docs st uid of
             None \<Rightarrow> []
           | Some d \<Rightarrow> (case doc_activities d of None \<Rightarrow> [] | Some xs \<Rightarrow> xs)))"

definition getActions_async :: "cloud \<Rightarrow> obj list" where
  "getActions_async st =
     (case currentUser st of
        None \<Rightarrow> (case cache_actions st of None \<Rightarrow> [] | Some xs \<Rightarrow> xs)
      | Some uid \<Rightarrow>
          (case docs st uid of
             None \<Rightarrow> []
           | Some d \<Rightarrow> (case doc_actions d of None \<Rightarrow> [] | Some xs \<Rightarrow> xs)))"







definition updateActivity_async :: "jsval \<Rightarrow> obj \<Rightarrow> cloud \<Rightarrow> cloud" where
  "updateActivity_async ident updatedData st =
     (let activities = getActivities_async st in
      case findIndex (\<lambda>a. strict_eq (get_prop a ''id'') ident) activities of
        Some index \<Rightarrow>
          persist \<lparr>doc_activities = Some (activities[index := set_prop ''id'' ident
                                                                (spread (activities ! index) updatedData)]),
                   doc_actions = None\<rparr> st
      | None \<Rightarrow> st)"

definition clearAllData_async :: "cloud \<Rightarrow> cloud" where
  "clearAllData_async st = persist \<lparr>doc_activities = Some [], doc_actions = Some []\<rparr> st"

section \<open>The runtime: strings, sorting, dates\<close>

text \<open>ToString of a JSON value (an array is its elements joined by commas).\<close>

fun ToString :: "json \<Rightarrow> string" and join_comma :: "json list \<Rightarrow> string" where
  "ToString JNull = ''null''"
| "ToString (JBool b) = (if b then ''true'' else ''false'')"
| "ToString (JNum n) = Number_toString n"
| "ToString (JStr s) = s"
| "ToString (JArr xs) = join_comma xs"
| "ToString (JObj _) = ''[object Object]''"
| "join_comma [] = []"
| "join_comma (x # xs) =
     (if x = JNull then [] else ToString x) @ (if xs = [] then [] else '','' @ join_comma xs)"

text \<open>The order of strings: code unit by code unit.\<close>

fun str_less :: "string \<Rightarrow> string \<Rightarrow> bool" where
  "str_less [] [] = False"
| "str_less [] (y # ys) = True"
| "str_less (x # xs) [] = False"
| "str_less (x # xs) (y # ys) =
     (if (of_char x :: nat) < of_char y then True
      else if (of_char y :: nat) < of_char x then False
      else str_less xs ys)"

text \<open>
  \<^verbatim>\<open>xs.sort()\<close> with no comparator: the elements are ordered by their strings, and the sort is
  stable. Insertion from the right, before the first element that is not smaller.
\<close>

fun sort_insert :: "json \<Rightarrow> json list \<Rightarrow> json list" where
  "sort_insert x [] = [x]"
| "sort_insert x (y # ys) =
     (if str_less (ToString y) (ToString x) then y # sort_insert x ys else x # y # ys)"

definition array_sort :: "json list \<Rightarrow> json list" where
  "array_sort xs = foldr sort_insert xs []"

text \<open>\<^verbatim>\<open>[...new Set(xs)]\<close>: the first occurrence of every value, in order.\<close>

fun set_add_all :: "json list \<Rightarrow> json list \<Rightarrow> json list" where
  "set_add_all seen [] = seen"
| "set_add_all seen (x # xs) =
     (if list_ex (\<lambda>y. strict_eq (Some y) (Some x)) seen then set_add_all seen xs
      else set_add_all (seen @ [x]) xs)"

text \<open>
  \<^verbatim>\<open>new Date(v)\<close> as its time value in milliseconds, \<open>None\<close> for an invalid date. The parser
  of date strings \<open>dp\<close> belongs to the runtime and is a parameter.
\<close>

definition TimeClip :: "int \<Rightarrow> int option" where
  "TimeClip t = (if \<bar>t\<bar> \<le> 8640000000000000 then Some t else None)"

fun Date_new :: "(string \<Rightarrow> int option) \<Rightarrow> json \<Rightarrow> int option" where
  "Date_new dp (JStr s) = dp s"
| "Date_new dp (JNum n) = TimeClip n"
| "Date_new dp (JBool b) = Some (if b then 1 else 0)"
| "Date_new dp JNull = Some 0"
| "Date_new dp v = dp (ToString v)"

text \<open>
  The date-only ISO form \<^verbatim>\<open>YYYY-MM-DD\<close> of a calendar date, which every engine reads as
  midnight UTC of that day. It instantiates \<open>dp\<close> in the concrete runs below.
\<close>

definition digit_val :: "char \<Rightarrow> nat option" where
  "digit_val c = (let n = (of_char c :: nat) in if 48 \<le> n \<and> n \<le> 57 then Some (n - 48) else None)"

fun number_of_digits :: "nat \<Rightarrow> string \<Rightarrow> nat option" where
  "number_of_digits acc [] = Some acc"
| "number_of_digits acc (c # cs) =
     (case digit_val c of None \<Rightarrow> None | Some d \<Rightarrow> number_of_digits (10 * acc + d) cs)"

definition is_leap :: "nat \<Rightarrow> bool" where
  "is_leap y = (y mod 4 = 0 \<and> (y mod 100 \<noteq> 0 \<or> y mod 400 = 0))"

definition days_in_month :: "nat \<Rightarrow> nat \<Rightarrow> nat" where
  "days_in_month y m =
     (if m = 2 then (if is_leap y then 29 else 28)
      else if m = 4 \<or> m = 6 \<or> m = 9 \<or> m = 11 then 30 else 31)"

definition days_from_civil :: "nat \<Rightarrow> nat \<Rightarrow> nat \<Rightarrow> int" where
  "days_from_civil y m d =
     (let y1 = int y - (if m \<le> 2 then 1 else 0);
          era = y1 div 400;
          yoe = y1 - era * 400;
          mp = (if m > 2 then int m - 3 else int m + 9);
          doy = (153 * mp + 2) div 5 + int d - 1;
          doe = yoe * 365 + yoe div 4 - yoe div 100 + doy
      in era * 146097 + doe - 719468)"

definition Date_parse_iso :: "string \<Rightarrow> int option" where
  "Date_parse_iso s =
     (if length s = 10 \<and> s ! 4 = CHR ''-'' \<and> s ! 7 = CHR ''-'' then
        (case (number_of_digits 0 (take 4 s), number_of_digits 0 (take 2 (drop 5 s)),
               number_of_digits 0 (drop 8 s)) of
           (Some y, Some m, Some d) \<Rightarrow>
             (if 1 \<le> m \<and> m \<le> 12 \<and> 1 \<le> d \<and> d \<le> days_in_month y m
              then Some (days_from_civil y m d * 86400000) else None)
         | _ \<Rightarrow> None)
      else None)"

section \<open>Analytics\<close>

text \<open>
  The analytics functions read the synchronous store. The clock is a parameter: \<open>today\<close> and
  \<open>yesterdayStr\<close> are the two formatted local dates the streak computes from \<^verbatim>\<open>new Date()\<close>.
\<close>

definition matches_streak :: "jsval \<Rightarrow> obj \<Rightarrow> bool" where
  "matches_streak actionId activity =
     (strict_eq (get_prop activity ''actionId'') actionId
      \<or> (strict_eq (get_prop activity ''type'') (Some (JStr ''exercise''))
         \<and> strict_eq actionId (Some (JStr ''exercise''))))"

definition truthy_date :: "obj \<Rightarrow> json option" where
  "truthy_date activity =
     (case get_prop activity ''date'' of
        None \<Rightarrow> None
      | Some d \<Rightarrow> if truthy (Some d) then Some d else None)"

definition actionDates :: "jsval \<Rightarrow> obj list \<Rightarrow> json list" where
  "actionDates actionId activities =
     array_sort (set_add_all [] (List.map_filter truthy_date (filter (matches_streak actionId) activities)))"

text \<open>
  \<^verbatim>\<open>Math.ceil((currentDate - prevDate) / 86400000)\<close>, \<open>None\<close> when a date is invalid (NaN).
  The quotient is compared with 1 only, which the rounding of the division cannot change.
\<close>

definition diffDays :: "(string \<Rightarrow> int option) \<Rightarrow> json \<Rightarrow> json \<Rightarrow> int option" where
  "diffDays dp cur prev =
     (case (Date_new dp cur, Date_new dp prev) of
        (Some c, Some p) \<Rightarrow> Some (- ((- (c - p)) div 86400000))
      | _ \<Rightarrow> None)"

text \<open>The loop \<^verbatim>\<open>for (i = length - 1; i > 0; i--)\<close>, entered with \<open>i\<close>.\<close>

fun streak_loop :: "(string \<Rightarrow> int option) \<Rightarrow> json list \<Rightarrow> nat \<Rightarrow> nat \<Rightarrow> nat" where
  "streak_loop dp ds 0 streak = streak"
| "streak_loop dp ds (Suc j) streak =
     (if diffDays dp (ds ! Suc j) (ds ! j) = Some 1 then streak_loop dp ds j (streak + 1)
      else streak)"

definition calculateActionStreak ::
  "(string \<Rightarrow> int option) \<Rightarrow> string \<Rightarrow> string \<Rightarrow> jsval \<Rightarrow> localStorage \<Rightarrow> nat" where
  "calculateActionStreak dp today yesterdayStr actionId st =
     (let activities = getActivities st in
      if length activities = 0 then 0
      else
        (let ds = actionDates actionId activities in
         if length ds = 0 then 0
         else if JStr today \<notin> set ds \<and> last ds \<noteq> JStr yesterdayStr then 0
         else streak_loop dp ds (length ds - 1) 1))"

text \<open>
  \<open>getActivityCountsLast30Days\<close>: \<open>now\<close> and \<open>thirtyDaysAgo\<close> are the time values of the two
  dates the function builds from the clock. The result object is the list of its entries,
  read with \<open>map_of\<close>; a key that names a member of \<^verbatim>\<open>Object.prototype\<close> is not modelled.
\<close>

definition in_window :: "(string \<Rightarrow> int option) \<Rightarrow> int \<Rightarrow> int \<Rightarrow> obj \<Rightarrow> bool" where
  "in_window dp now thirtyDaysAgo activity =
     (case truthy_date activity of
        None \<Rightarrow> False
      | Some d \<Rightarrow>
          (case Date_new dp d of
             None \<Rightarrow> False
           | Some t \<Rightarrow> thirtyDaysAgo \<le> t \<and> t \<le> now))"

definition count_key :: "obj \<Rightarrow> string" where
  "count_key activity =
     (let v = (if truthy (get_prop activity ''actionId'') then get_prop activity ''actionId''
               else get_prop activity ''type'')
      in case v of None \<Rightarrow> ''undefined'' | Some j \<Rightarrow> ToString j)"

definition count_step :: "obj \<Rightarrow> (string \<times> nat) list \<Rightarrow> (string \<times> nat) list" where
  "count_step activity counts =
     (let k = count_key activity
      in AList.update k ((case map_of counts k of None \<Rightarrow> 0 | Some c \<Rightarrow> c) + 1) counts)"

definition getActivityCountsLast30Days ::
  "(string \<Rightarrow> int option) \<Rightarrow> int \<Rightarrow> int \<Rightarrow> localStorage \<Rightarrow> (string \<times> nat) list" where
  "getActivityCountsLast30Days dp now thirtyDaysAgo st =
     (let recentActivities = filter (in_window dp now thirtyDaysAgo) (getActivities st)
      in fold count_step recentActivities [])"

text \<open>
  \<open>calculateDaysSinceLastOccurrence\<close>: \<open>midnight\<close> is the time value of today's local midnight.
  The comparator \<^verbatim>\<open>b.timestamp - a.timestamp\<close> converts both timestamps to numbers; the
  conversion of a string, \<open>sn\<close>, belongs to the runtime. A comparator result that is NaN
  counts as 0, and the sort is stable. The result is \<open>None\<close> for NaN. Sorting keeps the
  length, so the sorted list of a non-empty list has a first element.
\<close>

fun ToNumber :: "(string \<Rightarrow> int option) \<Rightarrow> jsval \<Rightarrow> int option" where
  "ToNumber sn None = None"
| "ToNumber sn (Some JNull) = Some 0"
| "ToNumber sn (Some (JBool b)) = Some (if b then 1 else 0)"
| "ToNumber sn (Some (JNum n)) = Some n"
| "ToNumber sn (Some (JStr s)) = sn s"
| "ToNumber sn (Some v) = sn (ToString v)"

definition timestamp_cmp :: "(string \<Rightarrow> int option) \<Rightarrow> obj \<Rightarrow> obj \<Rightarrow> int" where
  "timestamp_cmp sn a b =
     (case (ToNumber sn (get_prop b ''timestamp''), ToNumber sn (get_prop a ''timestamp'')) of
        (Some tb, Some ta) \<Rightarrow> tb - ta
      | _ \<Rightarrow> 0)"

fun sort_insert_by :: "(obj \<Rightarrow> obj \<Rightarrow> int) \<Rightarrow> obj \<Rightarrow> obj list \<Rightarrow> obj list" where
  "sort_insert_by cmp x [] = [x]"
| "sort_insert_by cmp x (y # ys) =
     (if cmp y x < 0 then y # sort_insert_by cmp x ys else x # y # ys)"

definition array_sort_by :: "(obj \<Rightarrow> obj \<Rightarrow> int) \<Rightarrow> obj list \<Rightarrow> obj list" where
  "array_sort_by cmp xs = foldr (sort_insert_by cmp) xs []"

definition calculateDaysSinceLastOccurrence ::
  "(string \<Rightarrow> int option) \<Rightarrow> (string \<Rightarrow> int option) \<Rightarrow> int \<Rightarrow> jsval \<Rightarrow> localStorage \<Rightarrow> int option" where
  "calculateDaysSinceLastOccurrence dp sn midnight actionId st =
     (let activities = getActivities st;
          relevantActivities =
            filter (\<lambda>activity. truthy (get_prop activity ''date''))
              (filter (\<lambda>activity. strict_eq (get_prop activity ''actionId'') actionId) activities)
      in if length relevantActivities = 0 then Some 0
         else
           (case array_sort_by (timestamp_cmp sn) relevantActivities of
              [] \<Rightarrow> None
            | newest # _ \<Rightarrow>
                (case truthy_date newest of
                   None \<Rightarrow> None
                 | Some d \<Rightarrow>
                     (case Date_new dp d of
                        None \<Rightarrow> None
                      | Some lastDate \<Rightarrow> Some ((midnight - lastDate) div 86400000)))))"

text \<open>
  \<open>calculateAverageWorkHours\<close>. \<^verbatim>\<open>activity.startTime.split(':')\<close> throws a \<^verbatim>\<open>TypeError\<close> unless
  the property is a string. \<open>epochMidnight\<close> is the time value of local midnight of the day
  of \<^verbatim>\<open>new Date(0)\<close>. The function returns the number 0 for no work activity and otherwise
  \<^verbatim>\<open>(totalHours / n).toFixed(1)\<close>; the model keeps the total in milliseconds (\<open>None\<close> for NaN)
  and the count, and leaves the floating-point quotient and its formatting out.
\<close>

fun split_on :: "char \<Rightarrow> string \<Rightarrow> string list" where
  "split_on c [] = [ [] ]"
| "split_on c (x # xs) =
     (if x = c then [] # split_on c xs
      else (case split_on c xs of p # ps \<Rightarrow> (x # p) # ps | [] \<Rightarrow> [ [x] ]))"

definition is_space :: "char \<Rightarrow> bool" where
  "is_space c = ((of_char c :: nat) \<in> {9, 10, 11, 12, 13, 32})"

definition radix_digit :: "nat \<Rightarrow> char \<Rightarrow> nat option" where
  "radix_digit r c =
     (let n = (of_char c :: nat);
          v = (if 48 \<le> n \<and> n \<le> 57 then Some (n - 48)
               else if 97 \<le> n \<and> n \<le> 122 then Some (n - 87)
               else if 65 \<le> n \<and> n \<le> 90 then Some (n - 55)
               else None)
      in case v of None \<Rightarrow> None | Some d \<Rightarrow> if d < r then Some d else None)"

fun parse_radix :: "nat \<Rightarrow> string \<Rightarrow> nat option \<Rightarrow> nat option" where
  "parse_radix r [] acc = acc"
| "parse_radix r (c # cs) acc =
     (case radix_digit r c of
        None \<Rightarrow> acc
      | Some d \<Rightarrow> parse_radix r cs (Some (r * (case acc of None \<Rightarrow> 0 | Some a \<Rightarrow> a) + d)))"

definition parseInt :: "string option \<Rightarrow> int option" where
  "parseInt v =
     (let s = dropWhile is_space (case v of None \<Rightarrow> ''undefined'' | Some s0 \<Rightarrow> s0);
          neg = (take 1 s = ''-'');
          s1 = (if take 1 s = ''-'' \<or> take 1 s = ''+'' then drop 1 s else s);
          hex = (take 2 s1 = ''0x'' \<or> take 2 s1 = ''0X'');
          s2 = (if hex then drop 2 s1 else s1)
      in case parse_radix (if hex then 16 else 10) s2 None of
           None \<Rightarrow> None
         | Some n \<Rightarrow> Some (if neg then - int n else int n))"

definition nth_opt :: "'a list \<Rightarrow> nat \<Rightarrow> 'a option" where
  "nth_opt xs i = (if i < length xs then Some (xs ! i) else None)"

text \<open>\<^verbatim>\<open>new Date(0)\<close> followed by \<^verbatim>\<open>setHours(parseInt(parts[0]), parseInt(parts[1]), 0)\<close>.\<close>

definition setHours :: "int \<Rightarrow> string list \<Rightarrow> int option" where
  "setHours epochMidnight parts =
     (case (parseInt (nth_opt parts 0), parseInt (nth_opt parts 1)) of
        (Some h, Some m) \<Rightarrow> TimeClip (epochMidnight + h * 3600000 + m * 60000)
      | _ \<Rightarrow> None)"

definition work_ms :: "int \<Rightarrow> obj \<Rightarrow> error + int option" where
  "work_ms epochMidnight activity =
     (case get_prop activity ''startTime'' of
        Some (JStr s) \<Rightarrow>
          (case get_prop activity ''endTime'' of
             Some (JStr e) \<Rightarrow>
               (let startDate = setHours epochMidnight (split_on CHR '':'' s);
                    endDate = setHours epochMidnight (split_on CHR '':'' e)
                in Inr (case (startDate, endDate) of
                          (Some sd, Some ed) \<Rightarrow>
                            (if ed < sd
                             then (case TimeClip (ed + 86400000) of
                                     None \<Rightarrow> None
                                   | Some ed1 \<Rightarrow> Some (ed1 - sd))
                             else Some (ed - sd))
                        | _ \<Rightarrow> None))
           | _ \<Rightarrow> Inl TypeError)
      | _ \<Rightarrow> Inl TypeError)"

fun sum_hours :: "int \<Rightarrow> obj list \<Rightarrow> int option \<Rightarrow> error + int option" where
  "sum_hours epochMidnight [] totalHours = Inr totalHours"
| "sum_hours epochMidnight (activity # rest) totalHours =
     (case work_ms epochMidnight activity of
        Inl e \<Rightarrow> Inl e
      | Inr d \<Rightarrow>
          sum_hours epochMidnight rest
            (case (totalHours, d) of (Some t, Some x) \<Rightarrow> Some (t + x) | _ \<Rightarrow> None))"

datatype average = Zero | Fixed1 "int option" nat

definition is_work :: "obj \<Rightarrow> bool" where
  "is_work activity =
     (strict_eq (get_prop activity ''actionId'') (Some (JStr ''work''))
      \<or> strict_eq (get_prop activity ''type'') (Some (JStr ''work'')))"

definition calculateAverageWorkHours :: "int \<Rightarrow> localStorage \<Rightarrow> error + average" where
  "calculateAverageWorkHours epochMidnight st =
     (let workActivities = filter is_work (getActivities st) in
      if length workActivities = 0 then Inr Zero
      else (case sum_hours epochMidnight workActivities (Some 0) of
              Inl e \<Rightarrow> Inl e
            | Inr totalHours \<Rightarrow> Inr (Fixed1 totalHours (length workActivities))))"

section \<open>Notions used in the statements\<close>






text \<open>A work activity that carries both times as strings.\<close>

definition has_times :: "obj \<Rightarrow> bool" where
  "has_times a = (case (get_prop a ''startTime'', get_prop a ''endTime'') of
                    (Some (JStr _), Some (JStr _)) \<Rightarrow> True | _ \<Rightarrow> False)"

text \<open>Concrete stores for the runs below.\<close>

definition cloud0 :: cloud where
  "cloud0 = \<lparr>currentUser = None, docs = (\<lambda>_. None), cache_activities = None, cache_actions = None\<rparr>"

definition dated :: "string \<Rightarrow> string \<Rightarrow> string \<Rightarrow> obj" where
  "dated i a d = [(''id'', JStr i), (''actionId'', JStr a), (''date'', JStr d)]"










section \<open>Properties of the values\<close>

lemma get_set_prop_same: "get_prop (set_prop k v ob) k = v"
  by (cases v) (simp_all add: get_prop_def AList.update_conv' AList.delete_conv')

lemma get_set_prop_other: "k' \<noteq> k \<Longrightarrow> get_prop (set_prop k v ob) k' = get_prop ob k'"
  by (cases v) (simp_all add: get_prop_def AList.update_conv' AList.delete_conv')

lemma map_of_spread:
  "distinct (map fst src) \<Longrightarrow> map_of (spread target src) = map_of target ++ map_of src"
  unfolding spread_def
proof (induction src arbitrary: target)
  case Nil
  then show ?case by simp
next
  case (Cons p ps)
  obtain k v where p: "p = (k, v)" by (cases p)
  from Cons.prems have d: "distinct (map fst ps)" and nk: "k \<notin> fst ` set ps"
    by (auto simp: p)
  have "map_of ps k = None" using nk by (simp add: map_of_eq_None_iff)
  then show ?case using Cons.IH [OF d, of "AList.update k v target"]
    by (auto simp: p AList.update_conv' fun_eq_iff map_add_def split: option.splits)
qed

lemma get_prop_spread:
  "distinct (map fst patch) \<Longrightarrow>
   get_prop (spread orig patch) k = (case get_prop patch k of Some v \<Rightarrow> Some v | None \<Rightarrow> get_prop orig k)"
  by (simp add: get_prop_def map_of_spread map_add_def split: option.splits)

lemma strict_eq_imp_eq: "strict_eq a b \<Longrightarrow> a = b"
  by (induction a b rule: strict_eq.induct) auto



lemma findIndex_None: "findIndex p xs = None \<longleftrightarrow> (\<forall>x\<in>set xs. \<not> p x)"
  by (induction xs) (auto split: if_splits option.splits)


section \<open>Reading back what was written\<close>

lemma getActions_again: "getActions (snd (getActions st)) = (fst (getActions st), snd (getActions st))"
  by (cases "actions_item st") (simp_all add: getActions_def saveActions_def)

lemma getActivities_getActions: "getActivities (snd (getActions st)) = getActivities st"
  by (cases "actions_item st") (simp_all add: getActions_def saveActions_def getActivities_def)



section \<open>Deleting an action\<close>




section \<open>Updating an activity\<close>

text \<open>
  The synchronous \<open>updateActivity\<close> stores, in place of the first record of that id, the merge
  of the record and the patch with the id and the timestamp of the record put back.
\<close>

lemma updateActivity_pins:
  assumes "findIndex (\<lambda>a. strict_eq (get_prop a ''id'') ident) (getActivities st) = Some n"
  shows "\<exists>m. updateActivity ident patch st = (Some m, saveActivities ((getActivities st)[n := m]) st)
     \<and> get_prop m ''id'' = get_prop (getActivities st ! n) ''id''
     \<and> get_prop m ''timestamp'' = get_prop (getActivities st ! n) ''timestamp''
     \<and> (distinct (map fst patch) \<longrightarrow>
          (\<forall>k. k \<noteq> ''id'' \<and> k \<noteq> ''timestamp'' \<longrightarrow>
             get_prop m k = (case get_prop patch k of Some v \<Rightarrow> Some v
                             | None \<Rightarrow> get_prop (getActivities st ! n) k)))"
  using assms
  by (simp add: updateActivity_def Let_def get_set_prop_same get_set_prop_other get_prop_spread
        del: set_prop.simps)

text \<open>
  C2. \<open>updateActivity\<close> keeps the id and the timestamp of the stored record whatever the patch
  holds. The asynchronous \<open>updateActivity\<close> puts the id back and not the timestamp: on a
  record with timestamp 100, a patch that carries the timestamp 999 stores 999.
\<close>

theorem updateActivity_async_timestamp:
  "map (\<lambda>a. (get_prop a ''id'', get_prop a ''timestamp''))
     (getActivities_async
        (updateActivity_async (Some (JStr ''1''))
           [(''notes'', JStr ''edited''), (''timestamp'', JNum 999)]
           (cloud0\<lparr>cache_activities :=
              Some [ [(''id'', JStr ''1''), (''date'', JStr ''2024-06-05''), (''timestamp'', JNum 100)] ]\<rparr>)))
   = [(Some (JStr ''1''), Some (JNum 999))]"
  by (simp add: updateActivity_async_def cloud0_def getActivities_async_def persist_def Let_def
        get_prop_def spread_def)

section \<open>Importing a backup\<close>











section \<open>The streak\<close>

text \<open>
  Matching dates that are logged in ascending order, each once, are the list \<open>actionDates\<close>
  computes: the set keeps them and the sort leaves them in place.
\<close>

lemma str_less_asym: "str_less a b \<Longrightarrow> \<not> str_less b a"
  by (induction a b rule: str_less.induct) (auto split: if_splits)

lemma str_less_irrefl: "\<not> str_less a a"
  using str_less_asym by blast

lemma sort_insert_least:
  "(\<forall>y \<in> set ys. str_less (ToString x) (ToString y)) \<Longrightarrow> sort_insert x ys = x # ys"
  by (cases ys) (auto dest: str_less_asym)

lemma array_sort_sorted:
  "sorted_wrt (\<lambda>a b. str_less (ToString a) (ToString b)) xs \<Longrightarrow> array_sort xs = xs"
  unfolding array_sort_def
  by (induction xs) (simp_all add: sort_insert_least)

lemma set_add_all_fresh:
  "sorted_wrt (\<lambda>a b. \<not> strict_eq (Some a) (Some b)) (seen @ xs) \<Longrightarrow> set_add_all seen xs = seen @ xs"
proof (induction xs arbitrary: seen)
  case Nil
  then show ?case by simp
next
  case (Cons x xs)
  from Cons.prems have "\<not> list_ex (\<lambda>y. strict_eq (Some y) (Some x)) seen"
    by (auto simp: sorted_wrt_append list_ex_iff)
  moreover have "set_add_all (seen @ [x]) xs = (seen @ [x]) @ xs"
    using Cons.prems by (intro Cons.IH) simp
  ultimately show ?case by simp
qed

lemma actionDates_in_order:
  assumes "sorted_wrt (\<lambda>a b. str_less (ToString a) (ToString b))
             (List.map_filter truthy_date (filter (matches_streak actionId) activities))"
  shows "actionDates actionId activities =
           List.map_filter truthy_date (filter (matches_streak actionId) activities)"
proof -
  let ?ds = "List.map_filter truthy_date (filter (matches_streak actionId) activities)"
  have "sorted_wrt (\<lambda>a b. \<not> strict_eq (Some a) (Some b)) ?ds"
    using assms
    by (rule sorted_wrt_mono_rel [rotated]) (auto dest: strict_eq_imp_eq simp: str_less_irrefl)
  then have "set_add_all [] ?ds = ?ds"
    using set_add_all_fresh [of "[]" ?ds] by simp
  then show ?thesis using assms by (simp add: actionDates_def array_sort_sorted)
qed






section \<open>The default catalog and clearing\<close>

text \<open>
  C6. In the synchronous store \<open>getActions\<close> on an absent catalog entry stores and returns the
  four defaults, Exercise (good), Healthy Food (good), Unhealthy Food (bad) and Work Time
  (neutral), and a call after a call returns the same catalog and changes nothing. The
  asynchronous \<open>getActions\<close> never seeds: with no cache entry and no session, or with a session
  and no remote document, it returns the empty catalog.
\<close>

theorem getActions_seeds:
  "(actions_item st = None \<longrightarrow>
      getActions st = (defaultActions, st\<lparr>actions_item := Some defaultActions\<rparr>))
   \<and> map (\<lambda>a. (get_prop a ''name'', get_prop a ''type'')) defaultActions =
       [(Some (JStr ''Exercise''), Some (JStr ''good'')),
        (Some (JStr ''Healthy Food''), Some (JStr ''good'')),
        (Some (JStr ''Unhealthy Food''), Some (JStr ''bad'')),
        (Some (JStr ''Work Time''), Some (JStr ''neutral''))]
   \<and> getActions (snd (getActions st)) = (fst (getActions st), snd (getActions st))
   \<and> (currentUser c = None \<and> cache_actions c = None \<longrightarrow> getActions_async c = [])
   \<and> (\<forall>uid. currentUser c = Some uid \<and> docs c uid = None \<longrightarrow> getActions_async c = [])"
proof -
  have "actions_item st = None \<longrightarrow>
      getActions st = (defaultActions, st\<lparr>actions_item := Some defaultActions\<rparr>)"
    by (simp add: getActions_def saveActions_def)
  moreover have "map (\<lambda>a. (get_prop a ''name'', get_prop a ''type'')) defaultActions =
       [(Some (JStr ''Exercise''), Some (JStr ''good'')),
        (Some (JStr ''Healthy Food''), Some (JStr ''good'')),
        (Some (JStr ''Unhealthy Food''), Some (JStr ''bad'')),
        (Some (JStr ''Work Time''), Some (JStr ''neutral''))]"
    by (simp add: defaultActions_def mkAction_def get_prop_def)
  moreover have "currentUser c = None \<and> cache_actions c = None \<longrightarrow> getActions_async c = []"
    by (simp add: getActions_async_def)
  moreover have "\<forall>uid. currentUser c = Some uid \<and> docs c uid = None \<longrightarrow> getActions_async c = []"
    by (simp add: getActions_async_def)
  ultimately show ?thesis using getActions_again [of st] by blast
qed

text \<open>The asynchronous \<open>getActions\<close> on the empty store does not return the defaults.\<close>

theorem getActions_async_counterexample:
  "getActions_async cloud0 \<noteq> defaultActions"
  by (simp add: cloud0_def getActions_async_def defaultActions_def)

theorem getActions_seeds_witness:
  "actions_item \<lparr>activities_item = None, actions_item = None\<rparr> = None
   \<and> fst (getActions \<lparr>activities_item = None, actions_item = None\<rparr>) = defaultActions
   \<and> fst (getActions (snd (getActions \<lparr>activities_item = None, actions_item = None\<rparr>))) = defaultActions
   \<and> currentUser cloud0 = None \<and> cache_actions cloud0 = None \<and> getActions_async cloud0 = []"
  using getActions_seeds [of "\<lparr>activities_item = None, actions_item = None\<rparr>" cloud0]
  by (simp add: cloud0_def getActions_def saveActions_def)

text \<open>
  C7. After the asynchronous \<open>clearAllData\<close> both collections read back empty. The
  synchronous \<open>clearAllData\<close> removes the activities entry only: the activities read back
  empty and the catalog entry is what it was.
\<close>

theorem clearAllData_reads:
  "getActivities (clearAllData st) = [] \<and> actions_item (clearAllData st) = actions_item st
   \<and> getActivities_async (clearAllData_async c) = []
   \<and> getActions_async (clearAllData_async c) = []"
  by (auto simp: getActivities_def clearAllData_def clearAllData_async_def persist_def
      getActivities_async_def getActions_async_def setDoc_merge_def Let_def split: option.splits)

text \<open>A synchronous store with one action: the catalog is not empty after \<open>clearAllData\<close>.\<close>

theorem clearAllData_counterexample:
  "fst (getActions (clearAllData
          \<lparr>activities_item = Some [], actions_item = Some [ [(''id'', JStr ''a'')] ]\<rparr>)) \<noteq> []"
  by (simp add: getActions_def clearAllData_def)

section \<open>The counts of the last 30 days\<close>

lemma map_of_count_step:
  "map_of (count_step a counts) k =
     (if count_key a = k then Some ((case map_of counts k of None \<Rightarrow> 0 | Some c \<Rightarrow> c) + 1)
      else map_of counts k)"
  by (simp add: count_step_def Let_def AList.update_conv')

lemma map_of_fold_count_step:
  "map_of (fold count_step xs counts) k =
     (if filter (\<lambda>a. count_key a = k) xs = [] then map_of counts k
      else Some ((case map_of counts k of None \<Rightarrow> 0 | Some c \<Rightarrow> c)
                 + length (filter (\<lambda>a. count_key a = k) xs)))"
  by (induction xs arbitrary: counts) (auto simp: map_of_count_step)

text \<open>
  The entry of a key is the number of activities of that key whose date, as an instant, lies
  between the two instants \<open>thirtyDaysAgo\<close> and \<open>now\<close>; a key with no such activity has no entry.
\<close>

lemma getActivityCountsLast30Days_counts:
  "map_of (getActivityCountsLast30Days dp now thirtyDaysAgo st) k =
     (let n = length (filter (\<lambda>a. in_window dp now thirtyDaysAgo a \<and> count_key a = k)
                        (getActivities st))
      in if n = 0 then None else Some n)"
  by (simp add: getActivityCountsLast30Days_def map_of_fold_count_step Let_def)

text \<open>
  C8. The counts are those of the activities dated from 30 days before today to today, both
  days included. The function compares instants: at noon UTC of 2024-06-05 the lower bound
  is noon of 2024-05-06, and an activity dated 2024-05-06, which is midnight of that day, 30
  days before today, is not counted; the first day counted is 2024-05-07.
\<close>

theorem window_boundary_30_days:
  "Date_parse_iso ''2024-06-05'' = Some 1717545600000
   \<and> Date_parse_iso ''2024-05-06'' = Some (1717545600000 - 30 * 86400000)
   \<and> getActivityCountsLast30Days Date_parse_iso
        (1717545600000 + 12 * 3600000) (1717545600000 + 12 * 3600000 - 30 * 86400000)
        \<lparr>activities_item = Some [dated ''1'' ''run'' ''2024-05-06''], actions_item = None\<rparr> = []
   \<and> getActivityCountsLast30Days Date_parse_iso
        (1717545600000 + 12 * 3600000) (1717545600000 + 12 * 3600000 - 30 * 86400000)
        \<lparr>activities_item = Some [dated ''1'' ''run'' ''2024-05-07''], actions_item = None\<rparr>
      = [(''run'', 1)]"
  by code_simp

section \<open>Distinct identifiers\<close>



















section \<open>Analytics on missing data\<close>

text \<open>With no matching activity each of the four functions returns its zero.\<close>

lemma calculateActionStreak_zero:
  "(\<forall>a \<in> set (getActivities st). \<not> matches_streak actionId a)
     \<Longrightarrow> calculateActionStreak dp today yesterdayStr actionId st = 0"
  by (simp add: calculateActionStreak_def actionDates_def Let_def array_sort_def
        List.map_filter_def)

lemma calculateDaysSinceLastOccurrence_zero:
  "(\<forall>a \<in> set (getActivities st). \<not> strict_eq (get_prop a ''actionId'') actionId)
     \<Longrightarrow> calculateDaysSinceLastOccurrence dp sn midnight actionId st = Some 0"
  by (simp add: calculateDaysSinceLastOccurrence_def Let_def)

lemma getActivityCountsLast30Days_zero:
  "(\<forall>a \<in> set (getActivities st). \<not> in_window dp now thirtyDaysAgo a)
     \<Longrightarrow> getActivityCountsLast30Days dp now thirtyDaysAgo st = []"
  by (simp add: getActivityCountsLast30Days_def Let_def)

lemma calculateAverageWorkHours_zero:
  "(\<forall>a \<in> set (getActivities st). \<not> is_work a)
     \<Longrightarrow> calculateAverageWorkHours epochMidnight st = Inr Zero"
  by (simp add: calculateAverageWorkHours_def Let_def)

text \<open>The average does not throw when every work activity carries both times.\<close>

lemma sum_hours_ok:
  "list_all has_times xs \<Longrightarrow> \<exists>r. sum_hours e xs t = Inr r"
proof (induction xs arbitrary: t)
  case Nil
  then show ?case by simp
next
  case (Cons a xs)
  then obtain d where "work_ms e a = Inr d"
    by (auto simp: has_times_def work_ms_def Let_def split: option.splits json.splits)
  then show ?case using Cons by simp
qed

lemma calculateAverageWorkHours_ok:
  "list_all has_times (filter is_work (getActivities st))
   \<Longrightarrow> \<exists>r. calculateAverageWorkHours e st = Inr r"
  using sum_hours_ok [of "filter is_work (getActivities st)" e "Some 0"]
  by (auto simp: calculateAverageWorkHours_def Let_def)

text \<open>
  C10. No analytics function throws, also on records without the optional fields.
  \<open>calculateAverageWorkHours\<close> calls \<^verbatim>\<open>split\<close> on the \<^verbatim>\<open>startTime\<close> of every work activity: on a
  work activity that has no \<^verbatim>\<open>startTime\<close> it throws a \<^verbatim>\<open>TypeError\<close>.
\<close>

theorem calculateAverageWorkHours_raises:
  "calculateAverageWorkHours epochMidnight
     \<lparr>activities_item =
        Some [ [(''id'', JStr ''1''), (''actionId'', JStr ''work''), (''date'', JStr ''2024-06-05''),
               (''timestamp'', JNum 1717588800000)] ],
      actions_item = None\<rparr> = Inl TypeError"
  by (simp add: calculateAverageWorkHours_def getActivities_def is_work_def get_prop_def work_ms_def)

end
